theory Spec2Isabelle
  imports Complex_Main
begin

section \<open>Values exchanged with the outside\<close>

text \<open>
  The agents parse model responses with \<open>json.loads\<close> and keep the parsed values in
  \<open>Dict[str, Any]\<close> fields. A parsed value is a \<open>json\<close>; an object is an association
  list in insertion order. Python floats are idealised as rationals (no rounding, no NaN).
\<close>

datatype json =
    JNull
  | JBool bool
  | JNum rat
  | JStr string
  | JArr "json list"
  | JObj "(string \<times> json) list"

type_synonym dict = "(string \<times> json) list"

text \<open>
  Python exceptions that the code can meet, each with the text \<open>str(e)\<close> gives; for a
  \<open>KeyError\<close> that is the key between single quotes.
\<close>

datatype py_error =
    KeyError string
  | TypeError string
  | AttributeError string
  | IndexError string
  | ValueError string
  | ValidationError string
  | APIError string
  | JSONDecodeError string
  | RecursionError string

fun str_of :: "py_error \<Rightarrow> string" where
  "str_of (KeyError m) = CHR 0x27 # m @ [CHR 0x27]"
| "str_of (TypeError m) = m"
| "str_of (AttributeError m) = m"
| "str_of (IndexError m) = m"
| "str_of (ValueError m) = m"
| "str_of (ValidationError m) = m"
| "str_of (APIError m) = m"
| "str_of (JSONDecodeError m) = m"
| "str_of (RecursionError m) = m"

text \<open>Sequencing of steps that may raise: the first exception ends the block.\<close>

fun bind_err :: "py_error + 'a \<Rightarrow> ('a \<Rightarrow> py_error + 'b) \<Rightarrow> py_error + 'b" where
  "bind_err (Inl e) f = Inl e"
| "bind_err (Inr x) f = f x"

text \<open>Python truthiness of a parsed value (\<open>not x\<close> is its negation).\<close>

fun truthy :: "json \<Rightarrow> bool" where
  "truthy JNull = False"
| "truthy (JBool b) = b"
| "truthy (JNum r) = (r \<noteq> 0)"
| "truthy (JStr s) = (s \<noteq> [])"
| "truthy (JArr xs) = (xs \<noteq> [])"
| "truthy (JObj d) = (d \<noteq> [])"

text \<open>\<open>sub in s\<close> on strings: \<open>sub\<close> occurs in \<open>s\<close> as a contiguous run.\<close>

fun str_contains :: "string \<Rightarrow> string \<Rightarrow> bool" where
  "str_contains [] sub = (sub = [])"
| "str_contains (c # cs) sub = (take (length sub) (c # cs) = sub \<or> str_contains cs sub)"

text \<open>\<open>key in x\<close> for a string key: raises TypeError on values that are not containers.\<close>

fun py_in :: "string \<Rightarrow> json \<Rightarrow> py_error + bool" where
  "py_in k (JObj d) = Inr (map_of d k \<noteq> None)"
| "py_in k (JArr xs) = Inr (JStr k \<in> set xs)"
| "py_in k (JStr s) = Inr (str_contains s k)"
| "py_in k JNull = Inl (TypeError ''argument of type NoneType is not iterable'')"
| "py_in k (JBool b) = Inl (TypeError ''argument of type bool is not iterable'')"
| "py_in k (JNum r) = Inl (TypeError ''argument of type float is not iterable'')"

text \<open>\<open>x[key]\<close> for a string key.\<close>

fun py_getitem :: "json \<Rightarrow> string \<Rightarrow> py_error + json" where
  "py_getitem (JObj d) k =
     (case map_of d k of None \<Rightarrow> Inl (KeyError k) | Some v \<Rightarrow> Inr v)"
| "py_getitem (JArr xs) k = Inl (TypeError ''list indices must be integers or slices, not str'')"
| "py_getitem (JStr s) k = Inl (TypeError ''string indices must be integers'')"
| "py_getitem JNull k = Inl (TypeError ''object is not subscriptable'')"
| "py_getitem (JBool b) k = Inl (TypeError ''object is not subscriptable'')"
| "py_getitem (JNum r) k = Inl (TypeError ''object is not subscriptable'')"

text \<open>\<open>x.get(key, default)\<close>: only a dict has the method.\<close>

fun py_get :: "json \<Rightarrow> string \<Rightarrow> json \<Rightarrow> py_error + json" where
  "py_get (JObj d) k dflt = Inr (case map_of d k of None \<Rightarrow> dflt | Some v \<Rightarrow> v)"
| "py_get x k dflt = Inl (AttributeError ''object has no attribute get'')"

text \<open>\<open>sep.join(xs)\<close>.\<close>

fun join :: "string \<Rightarrow> string list \<Rightarrow> string" where
  "join sep [] = []"
| "join sep [x] = x"
| "join sep (x # y # ys) = x @ sep @ join sep (y # ys)"

section \<open>Extraction confidence (data\_extractor.py)\<close>

definition critical_fields :: "(string \<times> string list) list" where
  "critical_fields =
     [(''transcript'', [''institution_name'', ''graduation_date'', ''final_grade'']),
      (''a_levels'', [''exam_board'', ''subjects'']),
      (''abitur'', [''school_name'', ''overall_grade'', ''graduation_year'']),
      (''ib'', [''total_points'', ''subjects'', ''graduation_year''])]"

text \<open>\<open>sum(1 for v in extracted_data.values() if v is not None)\<close>\<close>

definition non_null_fields :: "dict \<Rightarrow> nat" where
  "non_null_fields d = length (filter (\<lambda>v. v \<noteq> JNull) (map snd d))"

text \<open>\<open>field in extracted_data and extracted_data[field] is not None\<close>\<close>

definition field_present :: "dict \<Rightarrow> string \<Rightarrow> bool" where
  "field_present d field = (case map_of d field of None \<Rightarrow> False | Some v \<Rightarrow> v \<noteq> JNull)"

definition critical_present :: "dict \<Rightarrow> string list \<Rightarrow> nat" where
  "critical_present d crit = length (filter (field_present d) crit)"

text \<open>
  \<open>_calculate_extraction_confidence\<close>. The argument is whatever \<open>json.loads\<close> returned, so
  the first two tests are Python's \<open>not x\<close> and \<open>"error" in x\<close> on any parsed value, and
  \<open>x.values()\<close> raises on a value that is not a dict.
\<close>

definition calculate_extraction_confidence :: "json \<Rightarrow> string \<Rightarrow> py_error + rat" where
  "calculate_extraction_confidence extracted_data doc_type =
     (if \<not> truthy extracted_data then Inr 0
      else case py_in ''error'' extracted_data of
        Inl e \<Rightarrow> Inl e
      | Inr True \<Rightarrow> Inr 0
      | Inr False \<Rightarrow>
         (case extracted_data of
            JObj d \<Rightarrow>
              (let total_fields = length d in
               if total_fields = 0 then Inr 0
               else
                 let base_confidence = of_nat (non_null_fields d) / of_nat total_fields in
                 case map_of critical_fields doc_type of
                   Some crit \<Rightarrow>
                     (let critical_ratio = of_nat (critical_present d crit) / of_nat (length crit)
                      in Inr (min 1 (base_confidence * 0.5 + critical_ratio * 0.5)))
                 | None \<Rightarrow> Inr base_confidence)
          | _ \<Rightarrow> Inl (AttributeError ''object has no attribute values'')))"

text \<open>
  Filling fields in place: when \<open>d'\<close> has the keys of \<open>d\<close> in the same order and every field
  that is non-null in \<open>d\<close> is non-null in \<open>d'\<close>, no count that enters the score goes down.
\<close>

definition filled_from :: "dict \<Rightarrow> dict \<Rightarrow> bool" where
  "filled_from d d' =
     list_all2 (\<lambda>kv kv'. fst kv = fst kv' \<and> (snd kv = JNull \<or> snd kv' \<noteq> JNull)) d d'"

text \<open>
  The scoring rule as the specification words it: the share of non-null fields, averaged
  with the share of critical fields present for the four categories that have critical
  fields.
\<close>

definition critical_of :: "string \<Rightarrow> string list" where
  "critical_of category = (case map_of critical_fields category of None \<Rightarrow> [] | Some c \<Rightarrow> c)"

definition spec_confidence :: "dict \<Rightarrow> string \<Rightarrow> rat" where
  "spec_confidence d category =
     (let base = of_nat (non_null_fields d) / of_nat (length d) in
      if category \<in> {''transcript'', ''a_levels'', ''abitur'', ''ib''}
      then
        (let critical_ratio =
               of_nat (critical_present d (critical_of category))
               / of_nat (length (critical_of category))
         in min 1 (base * 0.5 + critical_ratio * 0.5))
      else base)"

section \<open>The application record (state.py)\<close>

record document_file =
  file_id :: string
  filename :: string
  file_type :: string
  file_path :: string
  size_bytes :: int

record classified_document =
  cd_file :: document_file
  cd_document_type :: string
  cd_confidence :: rat

record extracted_data =
  ed_document_type :: string
  ed_data :: dict
  ed_confidence :: rat
  ed_source_file :: string

datatype decision_status = APPROVED | REJECTED | REVIEW_REQUIRED | MISSING_DOCS

record admission_decision =
  status :: decision_status
  ad_confidence :: rat
  reasoning :: string
  applied_rules :: "dict list"
  missing_documents :: "string list"
  handbook_citations :: "string list"

text \<open>An entry of \<open>agent_logs\<close>; its timestamp (\<open>datetime.now()\<close>) is left out.\<close>

record log_entry =
  agent :: string
  action :: string
  details :: dict

record application_state =
  application_id :: string
  applicant_id :: string
  target_program :: string
  entity :: string
  uploaded_files :: "document_file list"
  classified_documents :: "classified_document list"
  extracted_data :: "extracted_data list"
  admission_decision :: "admission_decision option"
  created_at :: nat
  current_stage :: string
  error_message :: "string option"
  agent_logs :: "log_entry list"

definition add_log :: "string \<Rightarrow> string \<Rightarrow> dict \<Rightarrow> application_state \<Rightarrow> application_state" where
  "add_log ag act det state =
     state\<lparr>agent_logs := agent_logs state @ [\<lparr>agent = ag, action = act, details = det\<rparr>]\<rparr>"

definition status_name :: "decision_status \<Rightarrow> string" where
  "status_name s = (case s of APPROVED \<Rightarrow> ''APPROVED'' | REJECTED \<Rightarrow> ''REJECTED''
     | REVIEW_REQUIRED \<Rightarrow> ''REVIEW_REQUIRED'' | MISSING_DOCS \<Rightarrow> ''MISSING_DOCS'')"

section \<open>External collaborators\<close>

text \<open>
  What the pipeline calls but does not own is a parameter of the model:
  \<^item> \<open>json_loads\<close>: \<open>json.loads\<close>, giving the parsed value or the exception it raises:
    \<open>JSONDecodeError\<close> on text that is not JSON, and on some texts another one
    (\<open>RecursionError\<close> on deep nesting, \<open>ValueError\<close> on a number of too many digits);
  \<^item> \<open>messages_create n\<close>: the outcome of the \<open>n\<close>-th call of \<open>client.messages.create\<close>
    (counted over the whole run): an exception, or a response given by the texts of its
    content blocks;
  \<^item> \<open>validate_*\<close>: the field validation the pydantic models run when they are built,
    \<open>None\<close> when it raises \<open>ValidationError\<close>;
  \<^item> \<open>rag_initialized\<close> and \<open>similarity_search n\<close>: whether the vector store was loaded,
    and the outcome of the \<open>n\<close>-th search of it.
  The prompts only feed the model call and are not built. The \<open>world\<close> counts the calls
  made so far.
\<close>

record handbook_chunk =
  page_content :: string
  page :: json
  chunk_index :: json

record env =
  json_loads :: "string \<Rightarrow> py_error + json"
  messages_create :: "nat \<Rightarrow> py_error + string list"
  validate_str :: "json \<Rightarrow> string option"
  validate_float :: "json \<Rightarrow> rat option"
  validate_dict :: "json \<Rightarrow> dict option"
  validate_str_list :: "json \<Rightarrow> string list option"
  validate_dict_list :: "json \<Rightarrow> dict list option"
  rag_initialized :: bool
  similarity_search :: "nat \<Rightarrow> string \<Rightarrow> py_error + handbook_chunk list"

record world =
  llm_calls :: nat
  searches :: nat

definition call_model :: "env \<Rightarrow> world \<Rightarrow> (py_error + string list) \<times> world" where
  "call_model env w = (messages_create env (llm_calls w), w\<lparr>llm_calls := Suc (llm_calls w)\<rparr>)"

text \<open>\<open>response.content[0].text\<close>\<close>

definition first_text :: "string list \<Rightarrow> py_error + string" where
  "first_text content =
     (case content of [] \<Rightarrow> Inl (IndexError ''list index out of range'') | t # _ \<Rightarrow> Inr t)"

definition validated :: "'a option \<Rightarrow> py_error + 'a" where
  "validated v = (case v of None \<Rightarrow> Inl (ValidationError ''validation error'') | Some x \<Rightarrow> Inr x)"

section \<open>Classification stage (document\_classifier.py)\<close>

definition document_types :: "string list" where
  "document_types = [''transcript'', ''a_levels'', ''abitur'', ''ib'', ''passport'', ''cv'',
     ''work_certificate'', ''apprenticeship'', ''other'']"

text \<open>The body of the \<open>try\<close> in \<open>_classify_single_document\<close>.\<close>

definition parse_classification :: "env \<Rightarrow> document_file \<Rightarrow> string list \<Rightarrow> py_error + classified_document" where
  "parse_classification env f content =
     bind_err (first_text content) (\<lambda>text.
     bind_err (json_loads env text) (\<lambda>result.
     bind_err (py_getitem result ''document_type'') (\<lambda>dt.
     bind_err (py_getitem result ''confidence'') (\<lambda>c.
     bind_err (validated (validate_str env dt)) (\<lambda>dt'.
     bind_err (validated (validate_float env c)) (\<lambda>c'.
       Inr \<lparr>cd_file = f, cd_document_type = dt', cd_confidence = c'\<rparr>))))))"

text \<open>
  \<open>_classify_single_document\<close>: the model call is outside the \<open>try\<close> and its exception
  leaves the function; any exception of the \<open>try\<close> body gives the fallback.
\<close>

definition classify_single_document :: "env \<Rightarrow> world \<Rightarrow> document_file \<Rightarrow> (py_error + classified_document) \<times> world" where
  "classify_single_document env w f =
     (case call_model env w of
        (Inl e, w') \<Rightarrow> (Inl e, w')
      | (Inr content, w') \<Rightarrow>
          (case parse_classification env f content of
             Inr c \<Rightarrow> (Inr c, w')
           | Inl e \<Rightarrow> (Inr \<lparr>cd_file = f, cd_document_type = ''other'', cd_confidence = 0.1\<rparr>, w')))"

text \<open>The \<open>for file in state.uploaded_files\<close> loop of \<open>process\<close>, with its \<open>try\<close>/\<open>except\<close>.\<close>

fun classify_loop :: "env \<Rightarrow> document_file list \<Rightarrow> world \<times> classified_document list \<times> application_state
    \<Rightarrow> world \<times> classified_document list \<times> application_state" where
  "classify_loop env [] acc = acc"
| "classify_loop env (f # fs) (w, classified_docs, state) =
     (case classify_single_document env w f of
        (Inr classification, w') \<Rightarrow>
          classify_loop env fs
            (w', classified_docs @ [classification],
             add_log ''DocumentClassifier'' ''classify_document''
               [(''file'', JStr (filename f)),
                (''classified_as'', JStr (cd_document_type classification)),
                (''confidence'', JNum (cd_confidence classification))] state)
      | (Inl e, w') \<Rightarrow>
          classify_loop env fs
            (w', classified_docs,
             add_log ''DocumentClassifier'' ''classification_error''
               [(''file'', JStr (filename f)), (''error'', JStr (str_of e))] state))"

definition classifier_process :: "env \<Rightarrow> world \<Rightarrow> application_state \<Rightarrow> world \<times> application_state" where
  "classifier_process env w state =
     (case classify_loop env (uploaded_files state)
             (w, [], state\<lparr>current_stage := ''classifying_documents''\<rparr>) of
        (w', classified_docs, state') \<Rightarrow>
          (w', state'\<lparr>classified_documents := classified_docs,
                      current_stage := ''documents_classified''\<rparr>))"

section \<open>Extraction stage (data\_extractor.py)\<close>

text \<open>
  The body of the \<open>try\<close> in \<open>_extract_from_document\<close>. Reading the document text never
  raises and only feeds the prompt.
\<close>

definition parse_extraction :: "env \<Rightarrow> classified_document \<Rightarrow> string list \<Rightarrow> py_error + extracted_data" where
  "parse_extraction env classified_doc content =
     bind_err (first_text content) (\<lambda>text.
     bind_err (json_loads env text) (\<lambda>extracted_json.
     bind_err (calculate_extraction_confidence extracted_json (cd_document_type classified_doc)) (\<lambda>conf.
     bind_err (validated (validate_dict env extracted_json)) (\<lambda>d.
       Inr \<lparr>ed_document_type = cd_document_type classified_doc, ed_data = d,
            ed_confidence = conf, ed_source_file = filename (cd_file classified_doc)\<rparr>))))"

text \<open>\<open>_extract_from_document\<close>: only \<open>JSONDecodeError\<close> is caught, giving the error record.\<close>

definition extract_from_document :: "env \<Rightarrow> world \<Rightarrow> classified_document \<Rightarrow> (py_error + extracted_data) \<times> world" where
  "extract_from_document env w classified_doc =
     (case call_model env w of
        (Inl e, w') \<Rightarrow> (Inl e, w')
      | (Inr content, w') \<Rightarrow>
          (case parse_extraction env classified_doc content of
             Inl (JSONDecodeError m) \<Rightarrow>
               (Inr \<lparr>ed_document_type = cd_document_type classified_doc,
                     ed_data = [(''error'', JStr ''Failed to parse extracted data'')],
                     ed_confidence = 0,
                     ed_source_file = filename (cd_file classified_doc)\<rparr>, w')
           | r \<Rightarrow> (r, w')))"

text \<open>The \<open>for classified_doc in state.classified_documents\<close> loop of \<open>process\<close>.\<close>

fun extract_loop :: "env \<Rightarrow> classified_document list \<Rightarrow> world \<times> extracted_data list \<times> application_state
    \<Rightarrow> world \<times> extracted_data list \<times> application_state" where
  "extract_loop env [] acc = acc"
| "extract_loop env (classified_doc # ds) (w, extracted_list, state) =
     (case extract_from_document env w classified_doc of
        (Inr extraction, w') \<Rightarrow>
          extract_loop env ds
            (w', extracted_list @ [extraction],
             add_log ''DataExtractor'' ''extract_data''
               [(''document'', JStr (filename (cd_file classified_doc))),
                (''type'', JStr (cd_document_type classified_doc)),
                (''fields_extracted'', JNum (of_nat (length (ed_data extraction)))),
                (''confidence'', JNum (ed_confidence extraction))] state)
      | (Inl e, w') \<Rightarrow>
          extract_loop env ds
            (w', extracted_list,
             add_log ''DataExtractor'' ''extraction_error''
               [(''document'', JStr (filename (cd_file classified_doc))),
                (''error'', JStr (str_of e))] state))"

definition extractor_process :: "env \<Rightarrow> world \<Rightarrow> application_state \<Rightarrow> world \<times> application_state" where
  "extractor_process env w state =
     (case extract_loop env (classified_documents state)
             (w, [], state\<lparr>current_stage := ''extracting_data''\<rparr>) of
        (w', extracted_list, state') \<Rightarrow>
          (w', state'\<lparr>extracted_data := extracted_list, current_stage := ''data_extracted''\<rparr>))"

text \<open>
  What each document of a batch yields, in batch order: the value \<open>_extract_from_document\<close>
  returns or the exception it raises, each call seeing the world its predecessors left.
\<close>

fun extraction_outcomes :: "env \<Rightarrow> world \<Rightarrow> classified_document list \<Rightarrow> (py_error + extracted_data) list" where
  "extraction_outcomes env w [] = []"
| "extraction_outcomes env w (doc # ds) =
     (case extract_from_document env w doc of (r, w') \<Rightarrow> r # extraction_outcomes env w' ds)"

fun successes :: "('e + 'a) list \<Rightarrow> 'a list" where
  "successes [] = []"
| "successes (Inr x # rs) = x # successes rs"
| "successes (Inl e # rs) = successes rs"

definition outcome_action :: "py_error + extracted_data \<Rightarrow> string" where
  "outcome_action r = (case r of Inr x \<Rightarrow> ''extract_data'' | Inl e \<Rightarrow> ''extraction_error'')"

section \<open>Rule retrieval (rag/retriever.py)\<close>

record rule_source =
  src_page :: json
  excerpt :: string
  src_chunk_index :: json

record rule_result =
  answer :: string
  sources :: "rule_source list"
  question :: string

text \<open>
  \<open>query_admission_rules\<close>: refuses when the vector store is not loaded, searches the
  handbook, then asks the model; an exception of the search or of the model call leaves
  the function.
\<close>

definition query_admission_rules :: "env \<Rightarrow> world \<Rightarrow> string \<Rightarrow> (py_error + rule_result) \<times> world" where
  "query_admission_rules env w q =
     (if \<not> rag_initialized env
      then (Inl (ValueError ''RAG system not initialized. Call initialize() first.''), w)
      else
        (case similarity_search env (searches w) q of
           Inl e \<Rightarrow> (Inl e, w\<lparr>searches := Suc (searches w)\<rparr>)
         | Inr docs \<Rightarrow>
             (case call_model env (w\<lparr>searches := Suc (searches w)\<rparr>) of
                (Inl e, w') \<Rightarrow> (Inl e, w')
              | (Inr content, w') \<Rightarrow>
                  (case first_text content of
                     Inl e \<Rightarrow> (Inl e, w')
                   | Inr a \<Rightarrow>
                       (Inr \<lparr>answer = a,
                             sources = map (\<lambda>doc. \<lparr>src_page = page doc,
                                                    excerpt = take 200 (page_content doc) @ ''...'',
                                                    src_chunk_index = chunk_index doc\<rparr>) docs,
                             question = q\<rparr>, w')))))"

section \<open>Decision stage (admission\_agent.py)\<close>

definition required_docs :: "(string \<times> string list) list" where
  "required_docs =
     [(''DE'', [''transcript'', ''abitur'']),
      (''UK'', [''transcript'', ''a_levels'']),
      (''CA'', [''transcript''])]"

definition check_document_completeness :: "application_state \<Rightarrow> string list" where
  "check_document_completeness state =
     (let required = (case map_of required_docs (entity state) of None \<Rightarrow> [] | Some r \<Rightarrow> r);
          provided_types = map cd_document_type (classified_documents state)
      in filter (\<lambda>doc_type. doc_type \<notin> set provided_types) required)"

text \<open>An entry of the profile's \<open>qualifications\<close> list; the constructor is its \<open>type\<close>.\<close>

datatype qualification =
    university_degree dict rat
  | secondary_education string dict rat

record profile =
  p_target_program :: string
  p_entity :: string
  qualifications :: "qualification list"
  work_experience :: "dict list"
  personal_info :: dict

definition add_extraction :: "profile \<Rightarrow> extracted_data \<Rightarrow> profile" where
  "add_extraction p extraction =
     (if ed_document_type extraction = ''transcript''
      then p\<lparr>qualifications := qualifications p
              @ [university_degree (ed_data extraction) (ed_confidence extraction)]\<rparr>
      else if ed_document_type extraction \<in> set [''a_levels'', ''abitur'', ''ib'']
      then p\<lparr>qualifications := qualifications p
              @ [secondary_education (ed_document_type extraction) (ed_data extraction)
                   (ed_confidence extraction)]\<rparr>
      else if ed_document_type extraction = ''work_certificate''
      then p\<lparr>work_experience := work_experience p @ [ed_data extraction]\<rparr>
      else if ed_document_type extraction = ''cv''
      then p\<lparr>personal_info := ed_data extraction\<rparr>
      else p)"

definition build_applicant_profile :: "application_state \<Rightarrow> profile" where
  "build_applicant_profile state =
     foldl add_extraction
       \<lparr>p_target_program = target_program state, p_entity = entity state,
        qualifications = [], work_experience = [], personal_info = []\<rparr>
       (extracted_data state)"

fun qualification_queries :: "string \<Rightarrow> qualification \<Rightarrow> string list" where
  "qualification_queries tp (secondary_education subtype d c) =
     [''How is '' @ subtype @ '' recognized for admission to '' @ tp @ ''?'']
     @ (if map_of d ''overall_grade'' \<noteq> None
        then [''What is the minimum grade requirement for '' @ tp @ '' with '' @ subtype @ ''?'']
        else [])"
| "qualification_queries tp (university_degree d c) = []"

definition build_queries :: "string \<Rightarrow> profile \<Rightarrow> string list" where
  "build_queries tp p =
     [''What are the admission requirements for '' @ tp @ ''?'']
     @ concat (map (qualification_queries tp) (qualifications p))
     @ (if work_experience p \<noteq> []
        then [''Can work experience substitute for academic qualifications in '' @ tp @ ''?'']
        else [])"

text \<open>The loop that runs the queries: a query that raises is logged and dropped.\<close>

fun run_queries :: "env \<Rightarrow> string list \<Rightarrow> world \<times> rule_result list \<Rightarrow> world \<times> rule_result list" where
  "run_queries env [] acc = acc"
| "run_queries env (q # qs) (w, all_rules) =
     (case query_admission_rules env w q of
        (Inr result, w') \<Rightarrow> run_queries env qs (w', all_rules @ [result])
      | (Inl e, w') \<Rightarrow> run_queries env qs (w', all_rules))"

record handbook_rules =
  queries :: "string list"
  results :: "rule_result list"

definition query_rules :: "env \<Rightarrow> world \<Rightarrow> string \<Rightarrow> profile \<Rightarrow> handbook_rules \<times> world" where
  "query_rules env w tp p =
     (let qs = build_queries tp p in
      case run_queries env qs (w, []) of
        (w', all_rules) \<Rightarrow> (\<lparr>queries = qs, results = all_rules\<rparr>, w'))"

text \<open>The check of \<open>Literal["APPROVED", "REJECTED", "REVIEW_REQUIRED", "MISSING_DOCS"]\<close>.\<close>

definition validate_status :: "json \<Rightarrow> decision_status option" where
  "validate_status v =
     (if v = JStr ''APPROVED'' then Some APPROVED
      else if v = JStr ''REJECTED'' then Some REJECTED
      else if v = JStr ''REVIEW_REQUIRED'' then Some REVIEW_REQUIRED
      else if v = JStr ''MISSING_DOCS'' then Some MISSING_DOCS
      else None)"

text \<open>The body of the \<open>try\<close> in \<open>_apply_decision_logic\<close>.\<close>

definition parse_decision :: "env \<Rightarrow> string list \<Rightarrow> py_error + admission_decision" where
  "parse_decision env content =
     bind_err (first_text content) (\<lambda>text.
     bind_err (json_loads env text) (\<lambda>decision_data.
     bind_err (py_getitem decision_data ''status'') (\<lambda>s.
     bind_err (py_getitem decision_data ''confidence'') (\<lambda>c.
     bind_err (py_getitem decision_data ''reasoning'') (\<lambda>r.
     bind_err (py_get decision_data ''applied_rules'' (JArr [])) (\<lambda>ar.
     bind_err (py_get decision_data ''missing_documents'' (JArr [])) (\<lambda>md.
     bind_err (py_get decision_data ''handbook_citations'' (JArr [])) (\<lambda>hc.
     bind_err (validated (validate_status s)) (\<lambda>s'.
     bind_err (validated (validate_float env c)) (\<lambda>c'.
     bind_err (validated (validate_str env r)) (\<lambda>r'.
     bind_err (validated (validate_dict_list env ar)) (\<lambda>ar'.
     bind_err (validated (validate_str_list env md)) (\<lambda>md'.
     bind_err (validated (validate_str_list env hc)) (\<lambda>hc'.
       Inr \<lparr>status = s', ad_confidence = c', reasoning = r', applied_rules = ar',
            missing_documents = md', handbook_citations = hc'\<rparr>))))))))))))))"

definition fallback_decision :: admission_decision where
  "fallback_decision =
     \<lparr>status = REVIEW_REQUIRED, ad_confidence = 0.0,
      reasoning = ''Decision parsing failed - requires manual review'',
      applied_rules = [], missing_documents = [], handbook_citations = []\<rparr>"

text \<open>
  \<open>_apply_decision_logic\<close>: one model call; only \<open>JSONDecodeError\<close> is caught. The profile
  and the rules only feed the prompt.
\<close>

definition apply_decision_logic :: "env \<Rightarrow> world \<Rightarrow> profile \<Rightarrow> handbook_rules \<Rightarrow> application_state
    \<Rightarrow> (py_error + admission_decision) \<times> world" where
  "apply_decision_logic env w p rules state =
     (case call_model env w of
        (Inl e, w') \<Rightarrow> (Inl e, w')
      | (Inr content, w') \<Rightarrow>
          (case parse_decision env content of
             Inl (JSONDecodeError m) \<Rightarrow> (Inr fallback_decision, w')
           | r \<Rightarrow> (r, w')))"

definition evaluate_admission :: "env \<Rightarrow> world \<Rightarrow> application_state \<Rightarrow> (py_error + admission_decision) \<times> world" where
  "evaluate_admission env w state =
     (let applicant_profile = build_applicant_profile state in
      case query_rules env w (target_program state) applicant_profile of
        (rules, w') \<Rightarrow> apply_decision_logic env w' applicant_profile rules state)"

definition missing_docs_decision :: "string list \<Rightarrow> admission_decision" where
  "missing_docs_decision missing_docs =
     \<lparr>status = MISSING_DOCS, ad_confidence = 1.0,
      reasoning = ''Missing required documents: '' @ join '', '' missing_docs,
      applied_rules = [], missing_documents = missing_docs, handbook_citations = []\<rparr>"

text \<open>\<open>AdmissionDecisionAgent.process\<close>: every exception of the \<open>try\<close> ends in stage \<open>error\<close>.\<close>

definition decision_process :: "env \<Rightarrow> world \<Rightarrow> application_state \<Rightarrow> world \<times> application_state" where
  "decision_process env w state0 =
     (let state = state0\<lparr>current_stage := ''making_decision''\<rparr>;
          missing_docs = check_document_completeness state
      in case (if missing_docs \<noteq> [] then (Inr (missing_docs_decision missing_docs), w)
               else evaluate_admission env w state) of
           (Inr decision, w') \<Rightarrow>
             (w', add_log ''AdmissionDecision'' ''make_decision''
                    [(''status'', JStr (status_name (status decision))),
                     (''confidence'', JNum (ad_confidence decision)),
                     (''rules_applied'', JNum (of_nat (length (applied_rules decision))))]
                    (state\<lparr>admission_decision := Some decision,
                           current_stage := ''decision_made''\<rparr>))
         | (Inl e, w') \<Rightarrow>
             (w', add_log ''AdmissionDecision'' ''decision_error''
                    [(''error'', JStr (str_of e))]
                    (state\<lparr>error_message := Some (str_of e), current_stage := ''error''\<rparr>)))"

section \<open>Pipeline controller (workflow.py)\<close>

text \<open>
  The graph state is a dict with the fields of the application record, so the record
  stands for both. Each node rebuilds an \<open>ApplicationState\<close>, runs its agent and copies
  four fields of the result back into the dict.
\<close>

definition classify_documents_node :: "env \<Rightarrow> world \<Rightarrow> application_state \<Rightarrow> world \<times> application_state" where
  "classify_documents_node env w state =
     (case classifier_process env w state of
        (w', result) \<Rightarrow>
          (w', state\<lparr>classified_documents := classified_documents result,
                     current_stage := current_stage result,
                     error_message := error_message result,
                     agent_logs := agent_logs result\<rparr>))"

definition extract_data_node :: "env \<Rightarrow> world \<Rightarrow> application_state \<Rightarrow> world \<times> application_state" where
  "extract_data_node env w state =
     (case extractor_process env w state of
        (w', result) \<Rightarrow>
          (w', state\<lparr>extracted_data := extracted_data result,
                     current_stage := current_stage result,
                     error_message := error_message result,
                     agent_logs := agent_logs result\<rparr>))"

definition make_decision_node :: "env \<Rightarrow> world \<Rightarrow> application_state \<Rightarrow> world \<times> application_state" where
  "make_decision_node env w state =
     (case decision_process env w state of
        (w', result) \<Rightarrow>
          (w', state\<lparr>admission_decision := admission_decision result,
                     current_stage := current_stage result,
                     error_message := error_message result,
                     agent_logs := agent_logs result\<rparr>))"

definition handle_error_node :: "application_state \<Rightarrow> application_state" where
  "handle_error_node state =
     state\<lparr>current_stage := ''error_handled'',
           agent_logs := agent_logs state
             @ [\<lparr>agent = ''Workflow'', action = ''handle_error'',
                 details = [(''error'', case error_message state of None \<Rightarrow> JNull
                                          | Some m \<Rightarrow> JStr m)]\<rparr>]\<rparr>"

text \<open>\<open>if state.get("error_message")\<close>: neither \<open>None\<close> nor the empty string.\<close>

definition message_set :: "string option \<Rightarrow> bool" where
  "message_set m = (case m of None \<Rightarrow> False | Some s \<Rightarrow> s \<noteq> [])"

text \<open>
  The conditional edge functions. Each returns the route and writes the gate's message
  into the state dict it is given.
\<close>

definition should_continue_after_classification :: "application_state \<Rightarrow> string \<times> application_state" where
  "should_continue_after_classification state =
     (if message_set (error_message state) then (''error'', state)
      else if classified_documents state = []
      then (''error'', state\<lparr>error_message := Some ''No documents were successfully classified''\<rparr>)
      else
        (let confident_docs = filter (\<lambda>doc. cd_confidence doc > 0.5) (classified_documents state)
         in if confident_docs = []
            then (''error'',
                  state\<lparr>error_message := Some ''No documents classified with sufficient confidence''\<rparr>)
            else (''continue'', state)))"

definition should_continue_after_extraction :: "application_state \<Rightarrow> string \<times> application_state" where
  "should_continue_after_extraction state =
     (if message_set (error_message state) then (''error'', state)
      else if extracted_data state = []
      then (''error'', state\<lparr>error_message := Some ''No data was successfully extracted''\<rparr>)
      else
        (let confident_extractions = filter (\<lambda>extraction. ed_confidence extraction > 0.1)
                                       (extracted_data state)
         in if confident_extractions = []
            then (''error'',
                  state\<lparr>error_message := Some ''No data extracted with sufficient confidence''\<rparr>)
            else (''continue'', state)))"

text \<open>The graph of \<open>_build_workflow\<close>: four nodes, the entry point, and the edges.\<close>

datatype node = classify_documents | extract_data | make_decision | handle_error

datatype target = Node node | END

definition entry_point :: node where
  "entry_point = classify_documents"

definition run_node :: "env \<Rightarrow> node \<Rightarrow> world \<Rightarrow> application_state \<Rightarrow> world \<times> application_state" where
  "run_node env n w state =
     (case n of
        classify_documents \<Rightarrow> classify_documents_node env w state
      | extract_data \<Rightarrow> extract_data_node env w state
      | make_decision \<Rightarrow> make_decision_node env w state
      | handle_error \<Rightarrow> (w, handle_error_node state))"

text \<open>
  A conditional edge of the compiled graph: the edge function runs on the graph's own
  copy of the state. The route it returns is followed; what it wrote into its copy is not
  carried to the next node, which receives the state as the previous node left it.
\<close>

definition conditional_edge :: "(application_state \<Rightarrow> string \<times> application_state)
    \<Rightarrow> (string \<times> node) list \<Rightarrow> application_state \<Rightarrow> py_error + target \<times> application_state" where
  "conditional_edge path path_map state =
     (case path state of
        (r, written) \<Rightarrow>
          (case map_of path_map r of
             None \<Rightarrow> Inl (ValueError ''unknown branch'')
           | Some n \<Rightarrow> Inr (Node n, state)))"

definition edges :: "node \<Rightarrow> application_state \<Rightarrow> py_error + target \<times> application_state" where
  "edges n state =
     (case n of
        classify_documents \<Rightarrow>
          conditional_edge should_continue_after_classification
            [(''continue'', extract_data), (''error'', handle_error)] state
      | extract_data \<Rightarrow>
          conditional_edge should_continue_after_extraction
            [(''continue'', make_decision), (''error'', handle_error)] state
      | make_decision \<Rightarrow> Inr (END, state)
      | handle_error \<Rightarrow> Inr (END, state))"

definition rank :: "node \<Rightarrow> nat" where
  "rank n = (case n of classify_documents \<Rightarrow> 3 | extract_data \<Rightarrow> 2 | make_decision \<Rightarrow> 1
     | handle_error \<Rightarrow> 0)"

text \<open>Running the compiled graph from a node until \<open>END\<close>.\<close>

function run_graph :: "env \<Rightarrow> node \<Rightarrow> world \<Rightarrow> application_state \<Rightarrow> world \<times> (py_error + application_state)" where
  "run_graph env n w state =
     (case run_node env n w state of
        (w', state') \<Rightarrow>
          (case edges n state' of
             Inl e \<Rightarrow> (w', Inl e)
           | Inr (END, state'') \<Rightarrow> (w', Inr state'')
           | Inr (Node m, state'') \<Rightarrow> run_graph env m w' state''))"
  by pat_completeness auto
termination
  by (relation "measure (\<lambda>(env, n, w, state). rank n)")
     (auto simp: edges_def conditional_edge_def rank_def
           split: node.splits prod.splits option.splits if_splits)

declare run_graph.simps [simp del]

definition invoke :: "env \<Rightarrow> world \<Rightarrow> application_state \<Rightarrow> world \<times> (py_error + application_state)" where
  "invoke env w state = run_graph env entry_point w state"

text \<open>\<open>process_application\<close>: an exception of the run ends in stage \<open>workflow_error\<close>.\<close>

definition process_application :: "env \<Rightarrow> world \<Rightarrow> application_state \<Rightarrow> world \<times> application_state" where
  "process_application env w state =
     (case invoke env w state of
        (w', Inr result) \<Rightarrow> (w', result)
      | (w', Inl e) \<Rightarrow>
          (w', state\<lparr>error_message := Some (str_of e), current_stage := ''workflow_error''\<rparr>))"

section \<open>Concrete collaborators and inputs\<close>

text \<open>
  Validators that accept a value of exactly the declared type, a parser that knows a few
  response texts (1200 opening brackets exceed the recursion limit, any text it does not
  know is not JSON), and a model client that answers from a script; they serve to run the
  pipeline on concrete applications.
\<close>

definition strict_str :: "json \<Rightarrow> string option" where
  "strict_str v = (case v of JStr s \<Rightarrow> Some s | _ \<Rightarrow> None)"

definition strict_float :: "json \<Rightarrow> rat option" where
  "strict_float v = (case v of JNum r \<Rightarrow> Some r | _ \<Rightarrow> None)"

definition strict_dict :: "json \<Rightarrow> dict option" where
  "strict_dict v = (case v of JObj d \<Rightarrow> Some d | _ \<Rightarrow> None)"

fun all_some :: "'a option list \<Rightarrow> 'a list option" where
  "all_some [] = Some []"
| "all_some (None # xs) = None"
| "all_some (Some x # xs) = (case all_some xs of None \<Rightarrow> None | Some ys \<Rightarrow> Some (x # ys))"

definition strict_str_list :: "json \<Rightarrow> string list option" where
  "strict_str_list v = (case v of JArr xs \<Rightarrow> all_some (map strict_str xs) | _ \<Rightarrow> None)"

definition strict_dict_list :: "json \<Rightarrow> dict list option" where
  "strict_dict_list v = (case v of JArr xs \<Rightarrow> all_some (map strict_dict xs) | _ \<Rightarrow> None)"

definition sample_loads :: "string \<Rightarrow> py_error + json" where
  "sample_loads text =
     (if text = replicate 1200 CHR ''[''
      then Inl (RecursionError
             ''maximum recursion depth exceeded while decoding a JSON array from a unicode string'')
      else
        (case map_of
           [(''{\"document_type\": \"transcript\", \"confidence\": 0.9}'',
               JObj [(''document_type'', JStr ''transcript''), (''confidence'', JNum 0.9)]),
            (''{\"document_type\": \"transcript\", \"confidence\": 0.3}'',
               JObj [(''document_type'', JStr ''transcript''), (''confidence'', JNum 0.3)]),
            (''{\"document_type\": \"diploma\", \"confidence\": 95}'',
               JObj [(''document_type'', JStr ''diploma''), (''confidence'', JNum 95)]),
            (''{\"institution_name\": \"IU\", \"graduation_date\": null, \"final_grade\": \"1.7\"}'',
               JObj [(''institution_name'', JStr ''IU''), (''graduation_date'', JNull),
                     (''final_grade'', JStr ''1.7'')]),
            (''{\"status\": \"APPROVED\", \"confidence\": 0.5, \"reasoning\": \"meets the requirements\"}'',
               JObj [(''status'', JStr ''APPROVED''), (''confidence'', JNum 0.5),
                     (''reasoning'', JStr ''meets the requirements'')]),
            (''{\"status\": \"MISSING_DOCS\", \"confidence\": 0.9, \"reasoning\": \"no school certificate\"}'',
               JObj [(''status'', JStr ''MISSING_DOCS''), (''confidence'', JNum 0.9),
                     (''reasoning'', JStr ''no school certificate'')]),
            (''{}'', JObj [])]
           text of
           Some j \<Rightarrow> Inr j
         | None \<Rightarrow> Inl (JSONDecodeError ''Expecting value'')))"

definition scripted :: "bool \<Rightarrow> (py_error + string list) list \<Rightarrow> env" where
  "scripted rag responses =
     \<lparr>json_loads = sample_loads,
      messages_create = (\<lambda>n. if n < length responses then responses ! n
                             else Inl (APIError ''connection error'')),
      validate_str = strict_str,
      validate_float = strict_float,
      validate_dict = strict_dict,
      validate_str_list = strict_str_list,
      validate_dict_list = strict_dict_list,
      rag_initialized = rag,
      similarity_search = (\<lambda>n q. Inr [\<lparr>page_content = ''Admission requires a first degree.'',
                                          page = JNum 42, chunk_index = JNum 0\<rparr>])\<rparr>"

definition fresh_world :: world where
  "fresh_world = \<lparr>llm_calls = 0, searches = 0\<rparr>"

definition transcript_pdf :: document_file where
  "transcript_pdf = \<lparr>file_id = ''f1'', filename = ''transcript.pdf'', file_type = ''pdf'',
     file_path = ''uploads/transcript.pdf'', size_bytes = 1024\<rparr>"

definition new_application :: "string \<Rightarrow> document_file list \<Rightarrow> application_state" where
  "new_application ent files =
     \<lparr>application_id = ''app-1'', applicant_id = ''applicant-1'',
      target_program = ''MSc Data Science'', entity = ent, uploaded_files = files,
      classified_documents = [], extracted_data = [], admission_decision = None,
      created_at = 0, current_stage = ''created'', error_message = None, agent_logs = []\<rparr>"

definition classified_as :: "string \<Rightarrow> rat \<Rightarrow> classified_document" where
  "classified_as t c = \<lparr>cd_file = transcript_pdf, cd_document_type = t, cd_confidence = c\<rparr>"

text \<open>An application whose classification stage found one transcript.\<close>

definition classified_application :: "string \<Rightarrow> application_state" where
  "classified_application ent =
     (new_application ent [transcript_pdf])
       \<lparr>classified_documents := [classified_as ''transcript'' 0.9],
        current_stage := ''documents_classified''\<rparr>"

definition transcript_fields :: "json \<Rightarrow> json \<Rightarrow> json \<Rightarrow> dict" where
  "transcript_fields a b c =
     [(''institution_name'', a), (''graduation_date'', b), (''final_grade'', c)]"

text \<open>A batch of three classified documents awaiting extraction.\<close>

definition batch_application :: application_state where
  "batch_application =
     (new_application ''DE'' [transcript_pdf])
       \<lparr>classified_documents :=
          [classified_as ''transcript'' 0.9, classified_as ''cv'' 0.8, classified_as ''abitur'' 0.7],
        current_stage := ''documents_classified''\<rparr>"

section \<open>Auxiliary facts\<close>

lemma bind_err_Inr: "(bind_err m f = Inr y) = (\<exists>x. m = Inr x \<and> f x = Inr y)"
  by (cases m) auto

lemma validated_Inr: "(validated v = Inr x) = (v = Some x)"
  by (simp add: validated_def split: option.splits)

lemma action_add_log [simp]:
  "map action (agent_logs (add_log ag act det st)) = map action (agent_logs st) @ [act]"
  by (simp add: add_log_def)

lemma add_log_fields [simp]:
  "current_stage (add_log ag act det st) = current_stage st"
  "error_message (add_log ag act det st) = error_message st"
  "admission_decision (add_log ag act det st) = admission_decision st"
  "classified_documents (add_log ag act det st) = classified_documents st"
  "extracted_data (add_log ag act det st) = extracted_data st"
  by (simp_all add: add_log_def)

lemma completeness_ignores_stage [simp]:
  "check_document_completeness (state\<lparr>current_stage := s\<rparr>) = check_document_completeness state"
  by (simp add: check_document_completeness_def)

lemma profile_ignores_stage [simp]:
  "build_applicant_profile (state\<lparr>current_stage := s\<rparr>) = build_applicant_profile state"
  by (simp add: build_applicant_profile_def)

subsection \<open>Extraction confidence\<close>

lemma critical_fields_dom:
  "(map_of critical_fields t \<noteq> None) = (t \<in> {''transcript'', ''a_levels'', ''abitur'', ''ib''})"
  by (simp add: critical_fields_def)

lemma critical_of_Some: "map_of critical_fields t = Some c \<Longrightarrow> critical_of t = c"
  by (simp add: critical_of_def)

lemma critical_nonempty: "map_of critical_fields t = Some c \<Longrightarrow> c \<noteq> []"
  by (auto simp: critical_fields_def split: if_splits)

lemma confidence_on_dict:
  "d \<noteq> [] \<Longrightarrow> map_of d ''error'' = None \<Longrightarrow>
   calculate_extraction_confidence (JObj d) t =
     Inr (case map_of critical_fields t of
            None \<Rightarrow> of_nat (non_null_fields d) / of_nat (length d)
          | Some crit \<Rightarrow> min 1 (of_nat (non_null_fields d) / of_nat (length d) * 0.5
                             + of_nat (critical_present d crit) / of_nat (length crit) * 0.5))"
  by (simp add: calculate_extraction_confidence_def Let_def split: option.splits)

lemma confidence_empty: "calculate_extraction_confidence (JObj []) t = Inr 0"
  by (simp add: calculate_extraction_confidence_def)

lemma confidence_error_key:
  "map_of d ''error'' \<noteq> None \<Longrightarrow> calculate_extraction_confidence (JObj d) t = Inr 0"
  by (simp add: calculate_extraction_confidence_def)

lemma not_present_if_all_null:
  assumes "non_null_fields d = 0"
  shows "\<not> field_present d f"
proof -
  have all_null: "\<forall>v \<in> set (map snd d). v = JNull"
    using assms by (simp add: non_null_fields_def filter_empty_conv)
  show ?thesis
  proof (cases "map_of d f")
    case None
    then show ?thesis by (simp add: field_present_def)
  next
    case (Some v)
    then have "(f, v) \<in> set d" by (rule map_of_SomeD)
    then have "v \<in> set (map snd d)" by force
    with all_null have "v = JNull" by blast
    with Some show ?thesis by (simp add: field_present_def)
  qed
qed

lemma critical_present_zero: "non_null_fields d = 0 \<Longrightarrow> critical_present d crit = 0"
  by (simp add: critical_present_def not_present_if_all_null)

lemma critical_present_all:
  "\<forall>f \<in> set crit. field_present d f \<Longrightarrow> critical_present d crit = length crit"
  by (simp add: critical_present_def)

lemma ratio_mono: "(a::nat) \<le> b \<Longrightarrow> (of_nat a :: rat) / of_nat n \<le> of_nat b / of_nat n"
  by (simp add: divide_right_mono)

lemma confidence_mono:
  assumes len: "length d = length d'"
    and err: "(map_of d ''error'' = None) = (map_of d' ''error'' = None)"
    and nn: "non_null_fields d \<le> non_null_fields d'"
    and cp: "critical_present d (critical_of t) \<le> critical_present d' (critical_of t)"
  shows "\<exists>c c'. calculate_extraction_confidence (JObj d) t = Inr c
             \<and> calculate_extraction_confidence (JObj d') t = Inr c' \<and> c \<le> c'"
proof (cases "d = [] \<or> map_of d ''error'' \<noteq> None")
  case True
  then have "calculate_extraction_confidence (JObj d) t = Inr 0"
    by (auto simp: confidence_empty confidence_error_key)
  moreover from True len err have "d' = [] \<or> map_of d' ''error'' \<noteq> None"
    by auto
  then have "calculate_extraction_confidence (JObj d') t = Inr 0"
    by (auto simp: confidence_empty confidence_error_key)
  ultimately show ?thesis by simp
next
  case False
  then have d: "d \<noteq> []" "map_of d ''error'' = None" by auto
  with len err have d': "d' \<noteq> []" "map_of d' ''error'' = None" by auto
  have base: "(of_nat (non_null_fields d) :: rat) / of_nat (length d)
                \<le> of_nat (non_null_fields d') / of_nat (length d')"
    using nn len by (simp add: ratio_mono)
  show ?thesis
  proof (cases "map_of critical_fields t")
    case None
    with d d' base show ?thesis by (simp add: confidence_on_dict)
  next
    case (Some crit)
    then have "critical_of t = crit" by (rule critical_of_Some)
    with cp have "(of_nat (critical_present d crit) :: rat) / of_nat (length crit)
                    \<le> of_nat (critical_present d' crit) / of_nat (length crit)"
      by (simp add: ratio_mono)
    with base have "min (1::rat) (of_nat (non_null_fields d) / of_nat (length d) * 0.5
                        + of_nat (critical_present d crit) / of_nat (length crit) * 0.5)
                 \<le> min 1 (of_nat (non_null_fields d') / of_nat (length d') * 0.5
                        + of_nat (critical_present d' crit) / of_nat (length crit) * 0.5)"
      by (intro min.mono add_mono mult_right_mono) simp_all
    with d d' Some show ?thesis by (simp add: confidence_on_dict)
  qed
qed

lemma confidence_none_filled:
  assumes "non_null_fields d = 0"
  shows "calculate_extraction_confidence (JObj d) t = Inr 0"
proof (cases "d = [] \<or> map_of d ''error'' \<noteq> None")
  case True
  then show ?thesis by (auto simp: confidence_empty confidence_error_key)
next
  case False
  then show ?thesis
    using assms by (simp add: confidence_on_dict critical_present_zero split: option.splits)
qed

lemma confidence_all_filled:
  assumes "d \<noteq> []" and "map_of d ''error'' = None"
    and "non_null_fields d = length d"
    and "\<forall>f \<in> set (critical_of t). field_present d f"
  shows "calculate_extraction_confidence (JObj d) t = Inr 1"
proof (cases "map_of critical_fields t")
  case None
  with assms show ?thesis by (simp add: confidence_on_dict)
next
  case (Some crit)
  then have "critical_of t = crit" by (rule critical_of_Some)
  with assms(4) have "critical_present d crit = length crit"
    by (simp add: critical_present_all)
  moreover have "crit \<noteq> []" using Some by (rule critical_nonempty)
  ultimately show ?thesis
    using assms(1-3) Some by (simp add: confidence_on_dict)
qed

lemma filled_from_Nil [simp]: "filled_from [] d' = (d' = [])"
  by (simp add: filled_from_def)

lemma filled_from_Cons:
  "filled_from (kv # d) d' =
     (\<exists>kv' e'. d' = kv' # e' \<and> fst kv = fst kv' \<and> (snd kv = JNull \<or> snd kv' \<noteq> JNull)
        \<and> filled_from d e')"
  by (auto simp: filled_from_def list_all2_Cons1)

lemma filled_from_length: "filled_from d d' \<Longrightarrow> length d = length d'"
  by (simp add: filled_from_def list_all2_lengthD)

lemma filled_from_non_null: "filled_from d d' \<Longrightarrow> non_null_fields d \<le> non_null_fields d'"
proof (induction d arbitrary: d')
  case Nil
  then show ?case by simp
next
  case (Cons kv d)
  then obtain kv' e' where d': "d' = kv' # e'" "snd kv = JNull \<or> snd kv' \<noteq> JNull"
      "filled_from d e'"
    by (auto simp: filled_from_Cons)
  from Cons.IH [OF d'(3)] d'(1,2) show ?case
    by (auto simp: non_null_fields_def)
qed

lemma filled_from_keys: "filled_from d d' \<Longrightarrow> (map_of d k = None) = (map_of d' k = None)"
proof (induction d arbitrary: d')
  case Nil
  then show ?case by simp
next
  case (Cons kv d)
  then obtain kv' e' where d': "d' = kv' # e'" "fst kv = fst kv'" "filled_from d e'"
    by (auto simp: filled_from_Cons)
  from Cons.IH [OF d'(3)] d'(1,2) show ?case
    by (cases kv, cases kv') auto
qed

lemma filled_from_present: "filled_from d d' \<Longrightarrow> field_present d f \<Longrightarrow> field_present d' f"
proof (induction d arbitrary: d')
  case Nil
  then show ?case by (simp add: field_present_def)
next
  case (Cons kv d)
  then obtain kv' e' where d': "d' = kv' # e'" "fst kv = fst kv'"
      "snd kv = JNull \<or> snd kv' \<noteq> JNull" "filled_from d e'"
    by (auto simp: filled_from_Cons)
  show ?case
  proof (cases "fst kv = f")
    case True
    with Cons.prems(2) d'(1,2,3) show ?thesis
      by (cases kv, cases kv') (auto simp: field_present_def)
  next
    case False
    with Cons.prems(2) have "field_present d f"
      by (cases kv) (auto simp: field_present_def)
    then have "field_present e' f" using d'(4) by (rule Cons.IH [rotated])
    with False d'(1,2) show ?thesis
      by (cases kv, cases kv') (auto simp: field_present_def)
  qed
qed

lemma filter_length_mono:
  "(\<And>x. x \<in> set xs \<Longrightarrow> P x \<Longrightarrow> Q x) \<Longrightarrow> length (filter P xs) \<le> length (filter Q xs)"
  by (induction xs) auto

lemma filled_from_critical:
  "filled_from d d' \<Longrightarrow> critical_present d crit \<le> critical_present d' crit"
  unfolding critical_present_def
  by (rule filter_length_mono) (rule filled_from_present)

lemma filling_fields_raises_confidence:
  assumes "filled_from d d'"
  shows "\<exists>c c'. calculate_extraction_confidence (JObj d) t = Inr c
             \<and> calculate_extraction_confidence (JObj d') t = Inr c' \<and> c \<le> c'"
  using assms
  by (intro confidence_mono filled_from_length filled_from_keys filled_from_non_null
        filled_from_critical)

subsection \<open>The extraction loop\<close>

lemma extract_loop_outcomes:
  "extract_loop env docs (w, acc, st) = (w', acc', st') \<Longrightarrow>
     acc' = acc @ successes (extraction_outcomes env w docs)
   \<and> map action (agent_logs st')
       = map action (agent_logs st) @ map outcome_action (extraction_outcomes env w docs)
   \<and> current_stage st' = current_stage st
   \<and> error_message st' = error_message st
   \<and> admission_decision st' = admission_decision st"
proof (induction docs arbitrary: w acc st)
  case Nil
  then show ?case by simp
next
  case (Cons doc ds)
  obtain r w1 where r: "extract_from_document env w doc = (r, w1)"
    by (cases "extract_from_document env w doc")
  show ?case
  proof (cases r)
    case (Inl e)
    with r Cons.prems have
      "extract_loop env ds (w1, acc, add_log ''DataExtractor'' ''extraction_error''
          [(''document'', JStr (filename (cd_file doc))), (''error'', JStr (str_of e))] st)
        = (w', acc', st')"
      by simp
    from Cons.IH [OF this] r Inl show ?thesis
      by (simp add: outcome_action_def)
  next
    case (Inr x)
    with r Cons.prems have
      "extract_loop env ds (w1, acc @ [x], add_log ''DataExtractor'' ''extract_data''
               [(''document'', JStr (filename (cd_file doc))),
                (''type'', JStr (cd_document_type doc)),
                (''fields_extracted'', JNum (of_nat (length (ed_data x)))),
                (''confidence'', JNum (ed_confidence x))] st) = (w', acc', st')"
      by simp
    from Cons.IH [OF this] r Inr show ?thesis
      by (simp add: outcome_action_def)
  qed
qed

lemma successes_member: "i < length rs \<Longrightarrow> rs ! i = Inr x \<Longrightarrow> x \<in> set (successes rs)"
proof (induction rs arbitrary: i)
  case Nil
  then show ?case by simp
next
  case (Cons r rs)
  show ?case
  proof (cases i)
    case 0
    with Cons.prems show ?thesis by simp
  next
    case (Suc j)
    with Cons.prems have "x \<in> set (successes rs)" by (auto intro: Cons.IH)
    then show ?thesis by (cases r) simp_all
  qed
qed

lemma length_outcomes [simp]: "length (extraction_outcomes env w docs) = length docs"
  by (induction docs arbitrary: w) (auto split: prod.splits)

subsection \<open>The decision stage\<close>

lemma apply_decision_logic_not_json:
  assumes "messages_create env (llm_calls w) = Inr (t # rest)"
    and "json_loads env t = Inl (JSONDecodeError m)"
  shows "apply_decision_logic env w p rules state
           = (Inr fallback_decision, w\<lparr>llm_calls := Suc (llm_calls w)\<rparr>)"
  using assms
  by (simp add: apply_decision_logic_def call_model_def parse_decision_def first_text_def)

text \<open>
  When \<open>json.loads\<close> raises \<open>JSONDecodeError\<close> on the decision response, the stage ends in
  \<open>decision_made\<close> with the fallback decision.
\<close>

lemma decode_error_falls_back:
  assumes complete: "check_document_completeness state = []"
    and rules: "query_rules env w (target_program state) (build_applicant_profile state)
                  = (rules, w1)"
    and resp: "messages_create env (llm_calls w1) = Inr (t # rest)"
    and bad: "json_loads env t = Inl (JSONDecodeError m)"
  shows "admission_decision (snd (decision_process env w state)) = Some fallback_decision
       \<and> current_stage (snd (decision_process env w state)) = ''decision_made''
       \<and> error_message (snd (decision_process env w state)) = error_message state"
proof -
  have "evaluate_admission env w (state\<lparr>current_stage := ''making_decision''\<rparr>)
          = (Inr fallback_decision, w1\<lparr>llm_calls := Suc (llm_calls w1)\<rparr>)"
    using rules apply_decision_logic_not_json [OF resp bad]
    by (simp add: evaluate_admission_def Let_def)
  then show ?thesis
    using complete by (simp add: decision_process_def Let_def)
qed

subsection \<open>The classification stage and its gate\<close>

text \<open>
  What the classification of one file can return: the fallback, or the values of the
  parsed response as field validation accepted them.
\<close>

lemma classification_result:
  assumes "classify_single_document env w f = (Inr c, w')"
  shows "c = \<lparr>cd_file = f, cd_document_type = ''other'', cd_confidence = 0.1\<rparr>
       \<or> (\<exists>content body result dt cv.
             messages_create env (llm_calls w) = Inr content
           \<and> first_text content = Inr body
           \<and> json_loads env body = Inr result
           \<and> py_getitem result ''document_type'' = Inr dt
           \<and> py_getitem result ''confidence'' = Inr cv
           \<and> validate_str env dt = Some (cd_document_type c)
           \<and> validate_float env cv = Some (cd_confidence c)
           \<and> cd_file c = f)"
proof -
  from assms obtain content where content: "messages_create env (llm_calls w) = Inr content"
    by (auto simp: classify_single_document_def call_model_def split: sum.splits)
  show ?thesis
  proof (cases "parse_classification env f content")
    case (Inl e)
    with assms content show ?thesis
      by (simp add: classify_single_document_def call_model_def)
  next
    case (Inr c')
    with assms content have "c' = c"
      by (simp add: classify_single_document_def call_model_def)
    with Inr have "parse_classification env f content = Inr c" by simp
    then obtain body result dt cv where
      "first_text content = Inr body" "json_loads env body = Inr result"
      "py_getitem result ''document_type'' = Inr dt" "py_getitem result ''confidence'' = Inr cv"
      "validate_str env dt = Some (cd_document_type c)"
      "validate_float env cv = Some (cd_confidence c)" "cd_file c = f"
      by (auto simp: parse_classification_def bind_err_Inr validated_Inr)
    with content show ?thesis by blast
  qed
qed

text \<open>
  The gate after classification, on a state that carries no error message: the route is
  \<open>continue\<close> exactly when some classified document has confidence above 0.5, and the
  function writes its message into its own copy otherwise; the edge follows the route and
  hands on the state without that message.
\<close>

lemma classification_gate:
  assumes "\<not> message_set (error_message state)"
  shows "should_continue_after_classification state =
           (if \<exists>doc \<in> set (classified_documents state). cd_confidence doc > 0.5
            then (''continue'', state)
            else (''error'', state\<lparr>error_message := Some
                    (if classified_documents state = []
                     then ''No documents were successfully classified''
                     else ''No documents classified with sufficient confidence'')\<rparr>))"
  using assms
  by (auto simp: should_continue_after_classification_def Let_def filter_empty_conv)

lemma classification_edge:
  assumes "\<not> message_set (error_message state)"
  shows "edges classify_documents state =
           Inr (Node (if \<exists>doc \<in> set (classified_documents state). cd_confidence doc > 0.5
                      then extract_data else handle_error), state)"
  by (simp add: edges_def conditional_edge_def classification_gate [OF assms])

lemma classifier_keeps_error_message:
  "classify_loop env fs (w, acc, st) = (w', acc', st') \<Longrightarrow> error_message st' = error_message st"
  by (induction fs arbitrary: w acc st) (auto split: prod.splits sum.splits)

lemma classification_keeps_error_message:
  "error_message (snd (classify_documents_node env w state)) = error_message state"
proof -
  obtain w' acc' st' where loop:
    "classify_loop env (uploaded_files state)
       (w, [], state\<lparr>current_stage := ''classifying_documents''\<rparr>) = (w', acc', st')"
    by (cases "classify_loop env (uploaded_files state)
                 (w, [], state\<lparr>current_stage := ''classifying_documents''\<rparr>)")
  from classifier_keeps_error_message [OF loop] have "error_message st' = error_message state"
    by simp
  with loop show ?thesis
    by (simp add: classify_documents_node_def classifier_process_def)
qed

subsection \<open>Where a run can end\<close>

lemma decision_node_stage:
  "current_stage (snd (make_decision_node env w state)) \<in> {''decision_made'', ''error''}"
  by (simp add: make_decision_node_def decision_process_def Let_def
        split: prod.splits sum.splits)

lemma run_from_decision:
  "run_graph env make_decision w state = (w', r) \<Longrightarrow>
   \<exists>result. r = Inr result \<and> current_stage result \<in> {''decision_made'', ''error''}"
  using decision_node_stage [of env w state]
  by (auto simp: run_graph.simps [of env make_decision] run_node_def edges_def
        split: prod.splits)

lemma run_from_error:
  "run_graph env handle_error w state = (w', r) \<Longrightarrow>
   \<exists>result. r = Inr result \<and> current_stage result = ''error_handled''"
  by (auto simp: run_graph.simps [of env handle_error] run_node_def edges_def
        handle_error_node_def)

lemma run_from_extraction:
  "run_graph env extract_data w state = (w', r) \<Longrightarrow>
   \<exists>result. r = Inr result
      \<and> current_stage result \<in> {''decision_made'', ''error'', ''error_handled''}"
  by (auto simp: run_graph.simps [of env extract_data] run_node_def edges_def
        conditional_edge_def should_continue_after_extraction_def Let_def
        split: prod.splits if_splits dest: run_from_decision run_from_error)

lemma run_from_classification:
  "run_graph env classify_documents w state = (w', r) \<Longrightarrow>
   \<exists>result. r = Inr result
      \<and> current_stage result \<in> {''decision_made'', ''error'', ''error_handled''}"
  by (auto simp: run_graph.simps [of env classify_documents] run_node_def edges_def
        conditional_edge_def should_continue_after_classification_def Let_def
        split: prod.splits if_splits dest: run_from_extraction run_from_error)

lemma terminal_stages:
  "current_stage (snd (process_application env w state))
     \<in> {''decision_made'', ''error'', ''error_handled''}"
proof -
  obtain w' r where run: "run_graph env classify_documents w state = (w', r)"
    by (cases "run_graph env classify_documents w state")
  from run_from_classification [OF run] obtain result where
    "r = Inr result" "current_stage result \<in> {''decision_made'', ''error'', ''error_handled''}"
    by blast
  with run show ?thesis
    by (simp add: process_application_def invoke_def entry_point_def)
qed

section \<open>Properties of the pipeline\<close>

text \<open>
  Claim C1: when the decision-synthesis response parses as JSON and its confidence is
  below 0.8, the decision has status REVIEW\_REQUIRED. The prompt asks the model for
  that, and the code takes the status from the response as it is: for an application of
  entity CA whose transcript is classified and extracted, the decision response
  \<open>{"status": "APPROVED", "confidence": 0.5, ...}\<close> ends the run in \<open>decision_made\<close> with
  status APPROVED and confidence 0.5.
\<close>

theorem low_confidence_approval_kept:
  "admission_decision
     (snd (process_application
             (scripted True
                [Inr [''{\"document_type\": \"transcript\", \"confidence\": 0.9}''],
                 Inr [''{\"institution_name\": \"IU\", \"graduation_date\": null, \"final_grade\": \"1.7\"}''],
                 Inr [''See page 42.''],
                 Inr [''{\"status\": \"APPROVED\", \"confidence\": 0.5, \"reasoning\": \"meets the requirements\"}'']])
             fresh_world (new_application ''CA'' [transcript_pdf])))
   = Some \<lparr>status = APPROVED, ad_confidence = 0.5, reasoning = ''meets the requirements'',
            applied_rules = [], missing_documents = [], handbook_citations = []\<rparr>
   \<and> current_stage
     (snd (process_application
             (scripted True
                [Inr [''{\"document_type\": \"transcript\", \"confidence\": 0.9}''],
                 Inr [''{\"institution_name\": \"IU\", \"graduation_date\": null, \"final_grade\": \"1.7\"}''],
                 Inr [''See page 42.''],
                 Inr [''{\"status\": \"APPROVED\", \"confidence\": 0.5, \"reasoning\": \"meets the requirements\"}'']])
             fresh_world (new_application ''CA'' [transcript_pdf])))
   = ''decision_made''
   \<and> (0.5 :: rat) < 0.8"
  by code_simp

text \<open>
  Claim C2: when the entity has a required-documents entry and some required category is
  not among the categories of the classified documents, the decision stage ends in
  \<open>decision_made\<close> with a decision of status MISSING\_DOCS and confidence 1.0 whose
  missing documents are the required categories minus the classified ones, and the
  world is unchanged: no search and no model call was made.
\<close>

theorem missing_documents_short_circuit:
  assumes req: "map_of required_docs (entity state) = Some required"
    and absent: "\<not> set required \<subseteq> set (map cd_document_type (classified_documents state))"
  shows "\<exists>d state'. decision_process env w state = (w, state')
           \<and> admission_decision state' = Some d
           \<and> current_stage state' = ''decision_made''
           \<and> status d = MISSING_DOCS
           \<and> ad_confidence d = 1
           \<and> set (missing_documents d)
               = set required - set (map cd_document_type (classified_documents state))"
proof -
  let ?missing = "check_document_completeness state"
  have missing: "?missing
      = filter (\<lambda>t. t \<notin> set (map cd_document_type (classified_documents state))) required"
    using req by (simp add: check_document_completeness_def)
  then have set_missing:
    "set ?missing = set required - set (map cd_document_type (classified_documents state))"
    by auto
  with absent have nonempty: "?missing \<noteq> []" by auto
  show ?thesis
    using nonempty set_missing
    by (simp add: decision_process_def Let_def missing_docs_decision_def)
qed

text \<open>The scenario of entity DE with only a transcript: \<open>abitur\<close> is missing.\<close>

theorem missing_documents_short_circuit_witness:
  "map_of required_docs (entity (classified_application ''DE'')) = Some [''transcript'', ''abitur'']
   \<and> \<not> set [''transcript'', ''abitur'']
         \<subseteq> set (map cd_document_type (classified_documents (classified_application ''DE'')))
   \<and> (\<exists>d state'. decision_process (scripted True []) fresh_world (classified_application ''DE'')
                     = (fresh_world, state')
           \<and> admission_decision state' = Some d
           \<and> current_stage state' = ''decision_made''
           \<and> status d = MISSING_DOCS
           \<and> ad_confidence d = 1
           \<and> set (missing_documents d)
               = set [''transcript'', ''abitur'']
                 - set (map cd_document_type (classified_documents (classified_application ''DE''))))
   \<and> set [''transcript'', ''abitur'']
       - set (map cd_document_type (classified_documents (classified_application ''DE'')))
     = {''abitur''}"
proof -
  have h1: "map_of required_docs (entity (classified_application ''DE''))
              = Some [''transcript'', ''abitur'']"
    by (simp add: required_docs_def classified_application_def new_application_def)
  have h2: "\<not> set [''transcript'', ''abitur'']
         \<subseteq> set (map cd_document_type (classified_documents (classified_application ''DE'')))"
    by (simp add: classified_application_def new_application_def classified_as_def)
  have h3: "set [''transcript'', ''abitur'']
       - set (map cd_document_type (classified_documents (classified_application ''DE'')))
     = {''abitur''}"
    by (auto simp: classified_application_def new_application_def classified_as_def)
  from h1 h2 h3
    missing_documents_short_circuit [OF h1 h2, of "scripted True []" fresh_world]
  show ?thesis by blast
qed

text \<open>
  Claim C3: for a non-empty field mapping without the key \<open>error\<close>, the extraction
  confidence is the share of non-null fields; for the categories transcript, a\_levels,
  abitur and ib it is \<open>min(1.0, base*0.5 + critical_ratio*0.5)\<close>, where the critical ratio
  is the share of the category's critical fields that are present and non-null.
\<close>

theorem extraction_confidence_formula:
  assumes "d \<noteq> []" and "map_of d ''error'' = None"
  shows "calculate_extraction_confidence (JObj d) doc_type = Inr (spec_confidence d doc_type)"
proof (cases "map_of critical_fields doc_type")
  case None
  then have "doc_type \<notin> {''transcript'', ''a_levels'', ''abitur'', ''ib''}"
    using critical_fields_dom [of doc_type] by simp
  then show ?thesis
    using assms None by (simp add: confidence_on_dict spec_confidence_def)
next
  case (Some crit)
  then have "doc_type \<in> {''transcript'', ''a_levels'', ''abitur'', ''ib''}"
    using critical_fields_dom [of doc_type] by simp
  then show ?thesis
    using assms Some by (simp add: confidence_on_dict spec_confidence_def critical_of_Some Let_def)
qed

text \<open>A transcript with two of three fields filled, both of them critical: 2/3.\<close>

theorem extraction_confidence_formula_witness:
  "transcript_fields (JStr ''IU'') JNull (JStr ''1.7'') \<noteq> []
   \<and> map_of (transcript_fields (JStr ''IU'') JNull (JStr ''1.7'')) ''error'' = None
   \<and> calculate_extraction_confidence
        (JObj (transcript_fields (JStr ''IU'') JNull (JStr ''1.7''))) ''transcript''
      = Inr (spec_confidence (transcript_fields (JStr ''IU'') JNull (JStr ''1.7'')) ''transcript'')
   \<and> spec_confidence (transcript_fields (JStr ''IU'') JNull (JStr ''1.7'')) ''transcript'' = 2 / 3"
proof -
  have h1: "transcript_fields (JStr ''IU'') JNull (JStr ''1.7'') \<noteq> []"
    by (simp add: transcript_fields_def)
  have h2: "map_of (transcript_fields (JStr ''IU'') JNull (JStr ''1.7'')) ''error'' = None"
    by (simp add: transcript_fields_def)
  have h3: "spec_confidence (transcript_fields (JStr ''IU'') JNull (JStr ''1.7'')) ''transcript''
              = 2 / 3"
    by code_simp
  from h1 h2 h3 extraction_confidence_formula [OF h1 h2, of "''transcript''"]
  show ?thesis by blast
qed

text \<open>
  Claim C4: when the response to the decision-synthesis call is not valid JSON, the
  decision stage raises nothing and returns the fallback decision (REVIEW\_REQUIRED,
  confidence 0.0, empty rule and citation lists). \<open>_apply_decision_logic\<close> catches
  \<open>json.JSONDecodeError\<close> only, where the classifier catches every exception around the
  same call: a response of 1200 opening brackets is not JSON, \<open>json.loads\<close> raises
  \<open>RecursionError\<close> on it, and for an application of entity CA whose transcript is
  classified and extracted the run ends in stage \<open>error\<close> with that message and without
  any decision.
\<close>

theorem undecodable_decision_ends_in_error:
  "json_loads
     (scripted True
        [Inr [''{\"document_type\": \"transcript\", \"confidence\": 0.9}''],
         Inr [''{\"institution_name\": \"IU\", \"graduation_date\": null, \"final_grade\": \"1.7\"}''],
         Inr [''See page 42.''],
         Inr [replicate 1200 CHR ''['']])
     (replicate 1200 CHR ''['')
   = Inl (RecursionError
       ''maximum recursion depth exceeded while decoding a JSON array from a unicode string'')
   \<and> admission_decision
     (snd (process_application
             (scripted True
                [Inr [''{\"document_type\": \"transcript\", \"confidence\": 0.9}''],
                 Inr [''{\"institution_name\": \"IU\", \"graduation_date\": null, \"final_grade\": \"1.7\"}''],
                 Inr [''See page 42.''],
                 Inr [replicate 1200 CHR ''['']])
             fresh_world (new_application ''CA'' [transcript_pdf])))
   = None
   \<and> current_stage
     (snd (process_application
             (scripted True
                [Inr [''{\"document_type\": \"transcript\", \"confidence\": 0.9}''],
                 Inr [''{\"institution_name\": \"IU\", \"graduation_date\": null, \"final_grade\": \"1.7\"}''],
                 Inr [''See page 42.''],
                 Inr [replicate 1200 CHR ''['']])
             fresh_world (new_application ''CA'' [transcript_pdf])))
   = ''error''
   \<and> error_message
     (snd (process_application
             (scripted True
                [Inr [''{\"document_type\": \"transcript\", \"confidence\": 0.9}''],
                 Inr [''{\"institution_name\": \"IU\", \"graduation_date\": null, \"final_grade\": \"1.7\"}''],
                 Inr [''See page 42.''],
                 Inr [replicate 1200 CHR ''['']])
             fresh_world (new_application ''CA'' [transcript_pdf])))
   = Some ''maximum recursion depth exceeded while decoding a JSON array from a unicode string''"
  by code_simp

text \<open>
  Claim C5: every run ends either in stage \<open>decision_made\<close> with a decision, or with an
  error message in stage \<open>error_handled\<close> or \<open>workflow_error\<close>, and every exception of a
  stage passes through the error-handling node. The edge from \<open>make_decision\<close> leads
  straight to \<open>END\<close>: for an application of entity CA whose transcript is classified and
  extracted, a decision response \<open>{}\<close> (no \<open>status\<close> key) makes the decision agent catch
  the \<open>KeyError\<close> and set stage \<open>error\<close>, and the run ends there, with no decision and
  without the error-handling node having run.
\<close>

theorem decision_error_ends_unhandled:
  "current_stage
     (snd (process_application
             (scripted True
                [Inr [''{\"document_type\": \"transcript\", \"confidence\": 0.9}''],
                 Inr [''{\"institution_name\": \"IU\", \"graduation_date\": null, \"final_grade\": \"1.7\"}''],
                 Inr [''See page 42.''],
                 Inr [''{}'']])
             fresh_world (new_application ''CA'' [transcript_pdf])))
   = ''error''
   \<and> admission_decision
     (snd (process_application
             (scripted True
                [Inr [''{\"document_type\": \"transcript\", \"confidence\": 0.9}''],
                 Inr [''{\"institution_name\": \"IU\", \"graduation_date\": null, \"final_grade\": \"1.7\"}''],
                 Inr [''See page 42.''],
                 Inr [''{}'']])
             fresh_world (new_application ''CA'' [transcript_pdf])))
   = None
   \<and> error_message
     (snd (process_application
             (scripted True
                [Inr [''{\"document_type\": \"transcript\", \"confidence\": 0.9}''],
                 Inr [''{\"institution_name\": \"IU\", \"graduation_date\": null, \"final_grade\": \"1.7\"}''],
                 Inr [''See page 42.''],
                 Inr [''{}'']])
             fresh_world (new_application ''CA'' [transcript_pdf])))
   = Some (CHR 0x27 # ''status'' @ [CHR 0x27])
   \<and> map action (agent_logs
     (snd (process_application
             (scripted True
                [Inr [''{\"document_type\": \"transcript\", \"confidence\": 0.9}''],
                 Inr [''{\"institution_name\": \"IU\", \"graduation_date\": null, \"final_grade\": \"1.7\"}''],
                 Inr [''See page 42.''],
                 Inr [''{}'']])
             fresh_world (new_application ''CA'' [transcript_pdf]))))
   = [''classify_document'', ''extract_data'', ''decision_error'']"
  by code_simp

text \<open>
  Claim C6: the run proceeds to extraction exactly when some classified document has
  confidence above 0.5, and otherwise takes the error path with the error message
  \<open>No documents classified with sufficient confidence\<close>. The gate writes that message,
  and the graph does not keep what an edge function writes: for an application of entity
  DE whose only document is classified as a transcript with confidence 0.3, the gate
  returns \<open>error\<close> with the message set in its copy, and the run ends in \<open>error_handled\<close>
  with no error message, the error-handling node having logged \<open>None\<close>.
\<close>

theorem gate_message_lost:
  "classified_documents
     (snd (process_application
             (scripted True [Inr [''{\"document_type\": \"transcript\", \"confidence\": 0.3}'']])
             fresh_world (new_application ''DE'' [transcript_pdf])))
   = [classified_as ''transcript'' 0.3]
   \<and> should_continue_after_classification
        ((new_application ''DE'' [transcript_pdf])
           \<lparr>classified_documents := [classified_as ''transcript'' 0.3]\<rparr>)
      = (''error'',
         (new_application ''DE'' [transcript_pdf])
           \<lparr>classified_documents := [classified_as ''transcript'' 0.3],
            error_message := Some ''No documents classified with sufficient confidence''\<rparr>)
   \<and> current_stage
     (snd (process_application
             (scripted True [Inr [''{\"document_type\": \"transcript\", \"confidence\": 0.3}'']])
             fresh_world (new_application ''DE'' [transcript_pdf])))
   = ''error_handled''
   \<and> error_message
     (snd (process_application
             (scripted True [Inr [''{\"document_type\": \"transcript\", \"confidence\": 0.3}'']])
             fresh_world (new_application ''DE'' [transcript_pdf])))
   = None
   \<and> map details (agent_logs
     (snd (process_application
             (scripted True [Inr [''{\"document_type\": \"transcript\", \"confidence\": 0.3}'']])
             fresh_world (new_application ''DE'' [transcript_pdf]))))
   = [[(''file'', JStr ''transcript.pdf''), (''classified_as'', JStr ''transcript''),
       (''confidence'', JNum 0.3)],
      [(''error'', JNull)]]"
  by code_simp

text \<open>
  Claim C7: with the category, the number of fields and the presence of the key \<open>error\<close>
  the same, a mapping with at least as many non-null fields, and at least as many
  critical fields present, has at least the confidence; a mapping with no non-null field
  has confidence 0.0; and a non-empty mapping without the key \<open>error\<close> whose fields are
  all non-null and which holds every critical field of its category has confidence 1.0.
\<close>

theorem extraction_confidence_monotone:
  "(length d = length d'
      \<and> (map_of d ''error'' = None) = (map_of d' ''error'' = None)
      \<and> non_null_fields d \<le> non_null_fields d'
      \<and> critical_present d (critical_of t) \<le> critical_present d' (critical_of t)
    \<longrightarrow> (\<exists>c c'. calculate_extraction_confidence (JObj d) t = Inr c
              \<and> calculate_extraction_confidence (JObj d') t = Inr c' \<and> c \<le> c'))
   \<and> (non_null_fields e = 0 \<longrightarrow> calculate_extraction_confidence (JObj e) t = Inr 0)
   \<and> (f \<noteq> [] \<and> map_of f ''error'' = None \<and> non_null_fields f = length f
        \<and> (\<forall>k \<in> set (critical_of t). field_present f k)
      \<longrightarrow> calculate_extraction_confidence (JObj f) t = Inr 1)"
proof (intro conjI impI)
  assume "length d = length d'
      \<and> (map_of d ''error'' = None) = (map_of d' ''error'' = None)
      \<and> non_null_fields d \<le> non_null_fields d'
      \<and> critical_present d (critical_of t) \<le> critical_present d' (critical_of t)"
  then show "\<exists>c c'. calculate_extraction_confidence (JObj d) t = Inr c
              \<and> calculate_extraction_confidence (JObj d') t = Inr c' \<and> c \<le> c'"
    by (intro confidence_mono) simp_all
next
  assume "non_null_fields e = 0"
  then show "calculate_extraction_confidence (JObj e) t = Inr 0"
    by (rule confidence_none_filled)
next
  assume "f \<noteq> [] \<and> map_of f ''error'' = None \<and> non_null_fields f = length f
        \<and> (\<forall>k \<in> set (critical_of t). field_present f k)"
  then show "calculate_extraction_confidence (JObj f) t = Inr 1"
    by (intro confidence_all_filled) simp_all
qed

text \<open>
  A transcript with one, then two critical fields filled (1/3, then 2/3), with none
  (0), and with all three (1).
\<close>

theorem extraction_confidence_monotone_witness:
  "length (transcript_fields (JStr ''IU'') JNull JNull)
     = length (transcript_fields (JStr ''IU'') JNull (JStr ''1.7''))
   \<and> (map_of (transcript_fields (JStr ''IU'') JNull JNull) ''error'' = None)
       = (map_of (transcript_fields (JStr ''IU'') JNull (JStr ''1.7'')) ''error'' = None)
   \<and> non_null_fields (transcript_fields (JStr ''IU'') JNull JNull)
       \<le> non_null_fields (transcript_fields (JStr ''IU'') JNull (JStr ''1.7''))
   \<and> critical_present (transcript_fields (JStr ''IU'') JNull JNull) (critical_of ''transcript'')
       \<le> critical_present (transcript_fields (JStr ''IU'') JNull (JStr ''1.7''))
            (critical_of ''transcript'')
   \<and> calculate_extraction_confidence
         (JObj (transcript_fields (JStr ''IU'') JNull JNull)) ''transcript'' = Inr (1 / 3)
   \<and> calculate_extraction_confidence
         (JObj (transcript_fields (JStr ''IU'') JNull (JStr ''1.7''))) ''transcript'' = Inr (2 / 3)
   \<and> non_null_fields (transcript_fields JNull JNull JNull) = 0
   \<and> calculate_extraction_confidence
         (JObj (transcript_fields JNull JNull JNull)) ''transcript'' = Inr 0
   \<and> transcript_fields (JStr ''IU'') (JStr ''2020-06-30'') (JStr ''1.7'') \<noteq> []
   \<and> map_of (transcript_fields (JStr ''IU'') (JStr ''2020-06-30'') (JStr ''1.7'')) ''error'' = None
   \<and> non_null_fields (transcript_fields (JStr ''IU'') (JStr ''2020-06-30'') (JStr ''1.7''))
       = length (transcript_fields (JStr ''IU'') (JStr ''2020-06-30'') (JStr ''1.7''))
   \<and> list_all (field_present (transcript_fields (JStr ''IU'') (JStr ''2020-06-30'') (JStr ''1.7'')))
         (critical_of ''transcript'')
   \<and> calculate_extraction_confidence
         (JObj (transcript_fields (JStr ''IU'') (JStr ''2020-06-30'') (JStr ''1.7''))) ''transcript''
       = Inr 1"
proof -
  let ?d = "transcript_fields (JStr ''IU'') JNull JNull"
  let ?d' = "transcript_fields (JStr ''IU'') JNull (JStr ''1.7'')"
  let ?e = "transcript_fields JNull JNull JNull"
  let ?f = "transcript_fields (JStr ''IU'') (JStr ''2020-06-30'') (JStr ''1.7'')"
  have a1: "length ?d = length ?d'" by (simp add: transcript_fields_def)
  have a2: "(map_of ?d ''error'' = None) = (map_of ?d' ''error'' = None)"
    by (simp add: transcript_fields_def)
  have a3: "non_null_fields ?d \<le> non_null_fields ?d'"
    by (simp add: transcript_fields_def non_null_fields_def)
  have a4: "critical_present ?d (critical_of ''transcript'')
              \<le> critical_present ?d' (critical_of ''transcript'')"
    by (simp add: transcript_fields_def critical_present_def critical_of_def
          critical_fields_def field_present_def)
  have v1: "calculate_extraction_confidence (JObj ?d) ''transcript'' = Inr (1 / 3)"
    by code_simp
  have v2: "calculate_extraction_confidence (JObj ?d') ''transcript'' = Inr (2 / 3)"
    by code_simp
  have b1: "non_null_fields ?e = 0"
    by (simp add: transcript_fields_def non_null_fields_def)
  have c1: "?f \<noteq> []" by (simp add: transcript_fields_def)
  have c2: "map_of ?f ''error'' = None" by (simp add: transcript_fields_def)
  have c3: "non_null_fields ?f = length ?f"
    by (simp add: transcript_fields_def non_null_fields_def)
  have c4: "list_all (field_present ?f) (critical_of ''transcript'')"
    by (simp add: transcript_fields_def critical_of_def critical_fields_def field_present_def)
  then have c4': "\<forall>k \<in> set (critical_of ''transcript''). field_present ?f k"
    by (simp add: list_all_iff)
  note inst = extraction_confidence_monotone [of ?d ?d' "''transcript''" ?e ?f]
  from inst a1 a2 a3 a4 have mono:
    "\<exists>c c'. calculate_extraction_confidence (JObj ?d) ''transcript'' = Inr c
        \<and> calculate_extraction_confidence (JObj ?d') ''transcript'' = Inr c' \<and> c \<le> c'"
    by blast
  from inst b1 have zero: "calculate_extraction_confidence (JObj ?e) ''transcript'' = Inr 0"
    by blast
  from inst c1 c2 c3 c4' have full: "calculate_extraction_confidence (JObj ?f) ''transcript'' = Inr 1"
    by blast
  from a1 a2 a3 a4 v1 v2 b1 zero c1 c2 c3 c4 full show ?thesis
    by (intro conjI)
qed

text \<open>
  Claim C8: the extraction stage always completes, in stage \<open>data_extracted\<close> and with the
  error message it was given. Its extracted set holds, in batch order, exactly the
  records of the documents whose extraction returned, so every such document is
  included whatever its siblings did; a document whose extraction raised is left out,
  and each document leaves one log entry, \<open>extract_data\<close> or \<open>extraction_error\<close>.
\<close>

theorem extraction_isolates_failures:
  fixes env w state
  defines "outs \<equiv> extraction_outcomes env w (classified_documents state)"
  defines "result \<equiv> snd (extractor_process env w state)"
  shows "extracted_data result = successes outs
       \<and> (\<forall>i < length (classified_documents state). \<forall>x.
             outs ! i = Inr x \<longrightarrow> x \<in> set (extracted_data result))
       \<and> map action (agent_logs result)
           = map action (agent_logs state) @ map outcome_action outs
       \<and> current_stage result = ''data_extracted''
       \<and> error_message result = error_message state"
proof -
  obtain w' acc' st' where loop:
    "extract_loop env (classified_documents state)
       (w, [], state\<lparr>current_stage := ''extracting_data''\<rparr>) = (w', acc', st')"
    by (cases "extract_loop env (classified_documents state)
                 (w, [], state\<lparr>current_stage := ''extracting_data''\<rparr>)")
  from extract_loop_outcomes [OF loop]
  have acc: "acc' = successes outs"
    and logs: "map action (agent_logs st') = map action (agent_logs state) @ map outcome_action outs"
    and err: "error_message st' = error_message state"
    by (simp_all add: outs_def)
  have res: "result = st'\<lparr>extracted_data := acc', current_stage := ''data_extracted''\<rparr>"
    using loop by (simp add: result_def extractor_process_def)
  have mem: "\<forall>i < length (classified_documents state). \<forall>x.
      outs ! i = Inr x \<longrightarrow> x \<in> set (successes outs)"
    by (auto intro: successes_member simp: outs_def)
  show ?thesis
    using acc logs err mem by (simp add: res)
qed

text \<open>
  A transcript, a CV and an Abitur certificate, where the model call for the CV raises:
  the transcript and the Abitur are extracted, the CV is logged as an error.
\<close>

theorem extraction_isolates_failures_witness:
  "map outcome_action
     (extraction_outcomes
        (scripted False
           [Inr [''{\"institution_name\": \"IU\", \"graduation_date\": null, \"final_grade\": \"1.7\"}''],
            Inl (APIError ''overloaded''),
            Inr [''{\"institution_name\": \"IU\", \"graduation_date\": null, \"final_grade\": \"1.7\"}'']])
        fresh_world (classified_documents batch_application))
     = [''extract_data'', ''extraction_error'', ''extract_data'']
   \<and> map ed_document_type
       (extracted_data
          (snd (extractor_process
             (scripted False
                [Inr [''{\"institution_name\": \"IU\", \"graduation_date\": null, \"final_grade\": \"1.7\"}''],
                 Inl (APIError ''overloaded''),
                 Inr [''{\"institution_name\": \"IU\", \"graduation_date\": null, \"final_grade\": \"1.7\"}'']])
             fresh_world batch_application)))
     = [''transcript'', ''abitur'']
   \<and> current_stage
       (snd (extractor_process
          (scripted False
             [Inr [''{\"institution_name\": \"IU\", \"graduation_date\": null, \"final_grade\": \"1.7\"}''],
              Inl (APIError ''overloaded''),
              Inr [''{\"institution_name\": \"IU\", \"graduation_date\": null, \"final_grade\": \"1.7\"}'']])
          fresh_world batch_application))
     = ''data_extracted''"
proof -
  let ?env = "scripted False
           [Inr [''{\"institution_name\": \"IU\", \"graduation_date\": null, \"final_grade\": \"1.7\"}''],
            Inl (APIError ''overloaded''),
            Inr [''{\"institution_name\": \"IU\", \"graduation_date\": null, \"final_grade\": \"1.7\"}'']]"
  have acts: "map outcome_action
      (extraction_outcomes ?env fresh_world (classified_documents batch_application))
     = [''extract_data'', ''extraction_error'', ''extract_data'']"
    by code_simp
  have kept: "map ed_document_type
      (successes (extraction_outcomes ?env fresh_world (classified_documents batch_application)))
     = [''transcript'', ''abitur'']"
    by code_simp
  from extraction_isolates_failures [of ?env fresh_world batch_application]
  have "extracted_data (snd (extractor_process ?env fresh_world batch_application))
          = successes (extraction_outcomes ?env fresh_world (classified_documents batch_application))"
    and "current_stage (snd (extractor_process ?env fresh_world batch_application))
          = ''data_extracted''"
    by blast+
  with acts kept show ?thesis by simp
qed

text \<open>
  Claim C9: every classified document has a category of the closed list and a confidence
  in [0,1], whatever the model responds. The list is only named in the prompt: for an
  application with one file, the response \<open>{"document_type": "diploma", "confidence": 95}\<close>
  leaves the classification stage with a document of category \<open>diploma\<close> and confidence
  95.
\<close>

theorem unlisted_category_kept:
  "classified_documents
     (snd (classifier_process
             (scripted False [Inr [''{\"document_type\": \"diploma\", \"confidence\": 95}'']])
             fresh_world (new_application ''DE'' [transcript_pdf])))
   = [\<lparr>cd_file = transcript_pdf, cd_document_type = ''diploma'', cd_confidence = 95\<rparr>]
   \<and> ''diploma'' \<notin> set document_types
   \<and> \<not> (95 :: rat) \<le> 1"
  by code_simp

text \<open>
  Claim C10, as amended: for an entity code other than DE, UK and CA the completeness
  check returns the empty list, so the decision stage does not take the missing-documents
  branch: it runs the evaluation (rule queries and decision call) and ends with the
  decision that returns, or in stage \<open>error\<close> with the message of the exception it raises.
\<close>

theorem no_requirements_for_other_entities:
  assumes "entity state \<notin> {''DE'', ''UK'', ''CA''}"
  shows "check_document_completeness state = []
       \<and> fst (decision_process env w state)
           = snd (evaluate_admission env w (state\<lparr>current_stage := ''making_decision''\<rparr>))
       \<and> (case fst (evaluate_admission env w (state\<lparr>current_stage := ''making_decision''\<rparr>)) of
             Inr decision \<Rightarrow>
               admission_decision (snd (decision_process env w state)) = Some decision
               \<and> current_stage (snd (decision_process env w state)) = ''decision_made''
           | Inl e \<Rightarrow>
               admission_decision (snd (decision_process env w state)) = admission_decision state
               \<and> current_stage (snd (decision_process env w state)) = ''error''
               \<and> error_message (snd (decision_process env w state)) = Some (str_of e))"
proof -
  have "map_of required_docs (entity state) = None"
    using assms by (simp add: required_docs_def)
  then have "check_document_completeness state = []"
    by (simp add: check_document_completeness_def)
  then show ?thesis
    by (simp add: decision_process_def Let_def split: prod.splits sum.splits)
qed

text \<open>An application of entity FR whose decision response is prose: the fallback decision.\<close>

theorem no_requirements_for_other_entities_witness:
  "entity (classified_application ''FR'') \<notin> {''DE'', ''UK'', ''CA''}
   \<and> check_document_completeness (classified_application ''FR'') = []
   \<and> fst (evaluate_admission (scripted False [Inr [''I cannot decide.'']]) fresh_world
            ((classified_application ''FR'')\<lparr>current_stage := ''making_decision''\<rparr>))
       = Inr fallback_decision
   \<and> admission_decision
       (snd (decision_process (scripted False [Inr [''I cannot decide.'']]) fresh_world
               (classified_application ''FR'')))
       = Some fallback_decision
   \<and> current_stage
       (snd (decision_process (scripted False [Inr [''I cannot decide.'']]) fresh_world
               (classified_application ''FR'')))
       = ''decision_made''"
proof -
  let ?env = "scripted False [Inr [''I cannot decide.'']]"
  have h: "entity (classified_application ''FR'') \<notin> {''DE'', ''UK'', ''CA''}"
    by (simp add: classified_application_def new_application_def)
  have ev: "fst (evaluate_admission ?env fresh_world
            ((classified_application ''FR'')\<lparr>current_stage := ''making_decision''\<rparr>))
       = Inr fallback_decision"
    by code_simp
  from no_requirements_for_other_entities [OF h, of ?env fresh_world] h ev
  show ?thesis by simp
qed

text \<open>
  The claim as stated fails: for entity FR the decision stage returns the status
  MISSING\_DOCS when the decision response proposes it.
\<close>

theorem no_requirements_for_other_entities_counterexample:
  "entity (classified_application ''FR'') = ''FR''
   \<and> admission_decision
       (snd (decision_process
          (scripted False
             [Inr [''{\"status\": \"MISSING_DOCS\", \"confidence\": 0.9, \"reasoning\": \"no school certificate\"}'']])
          fresh_world (classified_application ''FR'')))
     = Some \<lparr>status = MISSING_DOCS, ad_confidence = 0.9, reasoning = ''no school certificate'',
              applied_rules = [], missing_documents = [], handbook_citations = []\<rparr>"
  by code_simp

end
